theory Spec2Isabelle
  imports Main "HOL-Library.Word"
begin

section \<open>The AirLift ESP32 adapter controller (adafruit_airlift/esp32.py)\<close>

text \<open>
  The class \<^verbatim>\<open>ESP32\<close> owns four digital lines and a UART and arbitrates between
  the Bluetooth and the Wifi mode of the co-processor. Its methods mutate the object and
  the hardware, sleep, and raise exceptions. In this embedding a method takes the state
  and returns the new state next to its result; an exception is an \<open>Inl\<close> result, and the
  state returned with it is the state the exception leaves behind (Python rolls nothing
  back). The drain loop of \<^verbatim>\<open>_reset_esp32\<close> has no bound in the source, so a method
  that runs it returns an \<open>option\<close>: \<open>None\<close> is the run that never leaves the loop.
\<close>

subsection \<open>Data\<close>

type_synonym byte = "8 word"

text \<open>A decoded text: the list of its Unicode code points.\<close>

type_synonym str = "nat list"

text \<open>The class constants \<^verbatim>\<open>NOT_IN_USE = 0\<close>, \<^verbatim>\<open>BLUETOOTH = 1\<close>, \<^verbatim>\<open>WIFI = 2\<close>.\<close>

datatype Mode = NOT_IN_USE | BLUETOOTH | WIFI

text \<open>
  The exceptions of the module. The three \<^verbatim>\<open>RuntimeError\<close>s of \<^verbatim>\<open>start_bluetooth\<close>
  differ by their message only, so the message is kept.
\<close>

datatype error =
    ImportError
  | RuntimeError string
  | AttributeError string
  | NotImplementedError

abbreviation ModeConflict :: error where
  "ModeConflict \<equiv> RuntimeError ''ESP32 is in Wifi mode''"

abbreviation NoStartupResponse :: error where
  "NoStartupResponse \<equiv> RuntimeError ''ESP32 did not respond with a startup message''"

abbreviation GarbledStartup :: error where
  "GarbledStartup \<equiv> RuntimeError ''Garbled ESP32 startup message''"

datatype Pin = ESP_RESET | ESP_GPIO0 | ESP_BUSY | ESP_CS | ESP_TX | ESP_RX | GPIO nat

datatype Direction = INPUT | OUTPUT

text \<open>A \<^verbatim>\<open>digitalio.DigitalInOut\<close>: a new one is an input.\<close>

record DigitalInOut =
  pin :: Pin
  direction :: Direction
  val :: bool

definition DigitalInOut_new :: "Pin \<Rightarrow> DigitalInOut" where
  "DigitalInOut_new p = \<lparr>pin = p, direction = INPUT, val = False\<rparr>"

definition switch_to_output :: "bool \<Rightarrow> DigitalInOut \<Rightarrow> DigitalInOut" where
  "switch_to_output v d = d\<lparr>direction := OUTPUT, val := v\<rparr>"

datatype SPI = Board_SPI | Bus nat

text \<open>
  A \<^verbatim>\<open>busio.UART\<close> with its constructor arguments and the bytes waiting in its
  receive buffer.
\<close>

record UART =
  tx :: Pin
  rx :: Pin
  baudrate :: nat
  timeout :: nat
  receiver_buffer_size :: nat
  buffer :: "byte list"

text \<open>The attributes that \<^verbatim>\<open>ESP32.__init__\<close> assigns: these eight and no other.\<close>

record ESP32 =
  mode :: Mode
  spi :: SPI
  reset_high :: bool
  reset :: DigitalInOut
  gpio0_and_rts :: DigitalInOut
  busy_and_cts :: DigitalInOut
  chip_select :: DigitalInOut
  uart :: UART

text \<open>
  Everything the hardware does is recorded: each operation on a line or on the UART, each
  sleep and each print appends an event to a trace, so that "no pin write, no UART
  activity" is a statement about the trace.
\<close>

datatype event =
    SwitchToOutput Pin bool
  | SetValue Pin bool
  | Sleep nat
  | InWaiting nat
  | Read "byte list option"
  | Print str

text \<open>
  The controller together with its surroundings. The co-processor sends when it
  pleases: \<open>arrivals m t\<close> are the bytes that reach the UART during step \<open>t\<close>, where a
  step is one sleep or one access to the UART, and \<open>clock m\<close> counts the steps so far.
\<close>

record machine = ESP32 +
  clock :: nat
  arrivals :: "nat \<Rightarrow> byte list"
  trace :: "event list"

subsection \<open>The surroundings: time, the UART, the lines\<close>

text \<open>
  One step: the bytes of this step join the receive buffer, which holds at most
  \<^verbatim>\<open>receiver_buffer_size\<close> bytes.
\<close>

definition tick :: "machine \<Rightarrow> machine" where
  "tick m =
     m\<lparr>uart := (uart m)\<lparr>buffer :=
           take (receiver_buffer_size (uart m)) (buffer (uart m) @ arrivals m (clock m))\<rparr>,
       clock := Suc (clock m)\<rparr>"

text \<open>\<^verbatim>\<open>time.sleep\<close>, the duration in milliseconds.\<close>

definition sleep :: "nat \<Rightarrow> machine \<Rightarrow> machine" where
  "sleep ms m = (let m1 = tick m in m1\<lparr>trace := trace m1 @ [Sleep ms]\<rparr>)"

text \<open>\<^verbatim>\<open>self._uart.in_waiting\<close>: the number of bytes in the receive buffer.\<close>

definition in_waiting :: "machine \<Rightarrow> nat \<times> machine" where
  "in_waiting m =
     (let m1 = tick m; n = length (buffer (uart m1))
      in (n, m1\<lparr>trace := trace m1 @ [InWaiting n]\<rparr>))"

text \<open>
  \<^verbatim>\<open>self._uart.read()\<close> with \<^verbatim>\<open>timeout=0\<close>: everything in the receive buffer, at
  once, or \<^verbatim>\<open>None\<close> when there is nothing.
\<close>

definition uart_read :: "machine \<Rightarrow> byte list option \<times> machine" where
  "uart_read m =
     (let m1 = tick m;
          data = (if buffer (uart m1) = [] then None else Some (buffer (uart m1)))
      in (data, m1\<lparr>uart := (uart m1)\<lparr>buffer := []\<rparr>, trace := trace m1 @ [Read data]\<rparr>))"

text \<open>
  \<^verbatim>\<open>self._reset.value = v\<close>. The reset line is an output from the constructor on,
  and nothing in the class makes it an input again.
\<close>

definition set_reset_value :: "bool \<Rightarrow> machine \<Rightarrow> machine" where
  "set_reset_value v m =
     m\<lparr>reset := (reset m)\<lparr>val := v\<rparr>, trace := trace m @ [SetValue (pin (reset m)) v]\<rparr>"

text \<open>\<^verbatim>\<open>self._gpio0_and_rts.switch_to_output(v)\<close>\<close>

definition gpio0_switch_to_output :: "bool \<Rightarrow> machine \<Rightarrow> machine" where
  "gpio0_switch_to_output v m =
     m\<lparr>gpio0_and_rts := switch_to_output v (gpio0_and_rts m),
       trace := trace m @ [SwitchToOutput (pin (gpio0_and_rts m)) v]\<rparr>"

text \<open>\<^verbatim>\<open>self._chip_select.switch_to_output(v)\<close>\<close>

definition chip_select_switch_to_output :: "bool \<Rightarrow> machine \<Rightarrow> machine" where
  "chip_select_switch_to_output v m =
     m\<lparr>chip_select := switch_to_output v (chip_select m),
       trace := trace m @ [SwitchToOutput (pin (chip_select m)) v]\<rparr>"

text \<open>\<^verbatim>\<open>print(text)\<close>\<close>

definition print :: "str \<Rightarrow> machine \<Rightarrow> machine" where
  "print txt m = m\<lparr>trace := trace m @ [Print txt]\<rparr>"

text \<open>
  The module \<^verbatim>\<open>_bleio\<close> belongs to the firmware, not to this library. What
  \<^verbatim>\<open>start_bluetooth\<close> uses of it is the module attribute \<^verbatim>\<open>_bleio.adapter\<close> and the
  constructor \<^verbatim>\<open>_bleio.Adapter(uart=, rts=, cts=)\<close>; both are parameters here, and
  \<open>'a\<close> is the type of adapter handles.
\<close>

record 'a bleio =
  adapter :: 'a
  Adapter :: "UART \<Rightarrow> DigitalInOut \<Rightarrow> DigitalInOut \<Rightarrow> 'a"

text \<open>
  Reading a line attribute of \<^verbatim>\<open>self\<close> by name. The class has no \<^verbatim>\<open>__getattr__\<close>
  and no class attribute besides the three mode constants, so a name that
  \<^verbatim>\<open>__init__\<close> did not assign raises \<^verbatim>\<open>AttributeError\<close>.
\<close>

definition getattr_pin :: "machine \<Rightarrow> string \<Rightarrow> error + DigitalInOut" where
  "getattr_pin self name =
     (if name = ''_reset'' then Inr (reset self)
      else if name = ''_gpio0_and_rts'' then Inr (gpio0_and_rts self)
      else if name = ''_busy_and_cts'' then Inr (busy_and_cts self)
      else if name = ''_chip_select'' then Inr (chip_select self)
      else Inl (AttributeError name))"

subsection \<open>The constructor\<close>

text \<open>
  \<^verbatim>\<open>ESP32.__init__\<close>, with the keyword arguments in the order of the source;
  \<open>spi_arg = None\<close> is the default that takes \<^verbatim>\<open>board.SPI()\<close>. The last argument is
  the behaviour of the co-processor on the serial line from now on.
\<close>

definition ESP32_init ::
  "Pin \<Rightarrow> Pin \<Rightarrow> Pin \<Rightarrow> Pin \<Rightarrow> Pin \<Rightarrow> Pin \<Rightarrow> SPI option \<Rightarrow> bool \<Rightarrow> (nat \<Rightarrow> byte list) \<Rightarrow> machine"
where
  "ESP32_init esp_reset esp_gpio0 esp_busy esp_cs esp_tx esp_rx spi_arg reset_high_arg feed =
     \<lparr>mode = NOT_IN_USE,
      spi = (case spi_arg of None \<Rightarrow> Board_SPI | Some b \<Rightarrow> b),
      reset_high = reset_high_arg,
      reset = switch_to_output reset_high_arg (DigitalInOut_new esp_reset),
      gpio0_and_rts = DigitalInOut_new esp_gpio0,
      busy_and_cts = DigitalInOut_new esp_busy,
      chip_select = DigitalInOut_new esp_cs,
      uart = \<lparr>tx = esp_tx, rx = esp_rx, baudrate = 115200, timeout = 0,
              receiver_buffer_size = 512, buffer = []\<rparr>,
      clock = 0,
      arrivals = feed,
      trace = [SwitchToOutput esp_reset reset_high_arg]\<rparr>"

text \<open>The constructor with the board's default pins.\<close>

definition ESP32_default :: "bool \<Rightarrow> (nat \<Rightarrow> byte list) \<Rightarrow> machine" where
  "ESP32_default reset_high_arg feed =
     ESP32_init ESP_RESET ESP_GPIO0 ESP_BUSY ESP_CS ESP_TX ESP_RX None reset_high_arg feed"

subsection \<open>The reset sequence\<close>

text \<open>
  The loop of \<^verbatim>\<open>_reset_esp32\<close>:
  \<^verbatim>\<open>while self._uart.in_waiting: more = self._uart.read(); if more: startup_message += more\<close>
\<close>

partial_function (option) drain :: "machine \<Rightarrow> byte list \<Rightarrow> (byte list \<times> machine) option" where
  "drain m startup_message =
     (case in_waiting m of (n, m1) \<Rightarrow>
        if n \<noteq> 0 then
          (case uart_read m1 of (more_bytes, m2) \<Rightarrow>
             drain m2 (case more_bytes of
                         None \<Rightarrow> startup_message
                       | Some b \<Rightarrow> if b \<noteq> [] then startup_message @ b else startup_message))
        else Some (startup_message, m1))"

declare drain.simps [code]

text \<open>\<^verbatim>\<open>ESP32._reset_esp32\<close>\<close>

definition reset_esp32 :: "machine \<Rightarrow> (byte list \<times> machine) option" where
  "reset_esp32 self =
     (let m1 = set_reset_value (reset_high self) self;
          m2 = sleep 100 m1;
          m3 = set_reset_value (\<not> reset_high self) m2;
          m4 = sleep 1000 m3
      in drain m4 [])"

subsection \<open>The public operations\<close>

text \<open>
  The first statements of \<^verbatim>\<open>start_bluetooth\<close> after the mode checks: the mode is set,
  then the two strapping lines are driven.
\<close>

definition strap_bluetooth :: "machine \<Rightarrow> machine" where
  "strap_bluetooth self =
     chip_select_switch_to_output False
       (gpio0_switch_to_output True (self\<lparr>mode := BLUETOOTH\<rparr>))"

text \<open>
  \<^verbatim>\<open>ESP32.start_bluetooth\<close>. The first argument is what \<^verbatim>\<open>import _bleio\<close>
  yields: \<open>None\<close> on a board without the module, where the import raises. The second is
  the body of the \<^verbatim>\<open>try\<close>, \<^verbatim>\<open>print(startup_message.decode("utf-8"))\<close>, as far
  as it can raise: the text that is printed, or \<open>None\<close> when the decoding, or the
  console's encoding of the decoded text inside \<^verbatim>\<open>print\<close>, raises
  \<^verbatim>\<open>UnicodeError\<close>, in which case nothing is printed. The arguments of the final
  constructor call are evaluated left to right before the call.
\<close>

definition start_bluetooth ::
  "'a bleio option \<Rightarrow> (byte list \<Rightarrow> str option) \<Rightarrow> bool \<Rightarrow> machine
     \<Rightarrow> ((error + 'a) \<times> machine) option"
where
  "start_bluetooth import_bleio decode debug self =
     (case import_bleio of
        None \<Rightarrow> Some (Inl ImportError, self)
      | Some B \<Rightarrow>
          if mode self = BLUETOOTH then Some (Inr (adapter B), self)
          else if mode self = WIFI then Some (Inl ModeConflict, self)
          else
            (case reset_esp32 (strap_bluetooth self) of
               None \<Rightarrow> None
             | Some (startup_message, m1) \<Rightarrow>
                 if startup_message = [] then Some (Inl NoStartupResponse, m1)
                 else
                   (case (if debug then
                            (case decode startup_message of
                               None \<Rightarrow> Inl GarbledStartup
                             | Some txt \<Rightarrow> Inr (print txt m1))
                          else Inr m1) of
                      Inl e \<Rightarrow> Some (Inl e, m1)
                    | Inr m2 \<Rightarrow>
                        (case getattr_pin m2 ''_gpio0_and_rts'' of
                           Inl e \<Rightarrow> Some (Inl e, m2)
                         | Inr rts \<Rightarrow>
                             (case getattr_pin m2 ''_cts'' of
                                Inl e \<Rightarrow> Some (Inl e, m2)
                              | Inr cts \<Rightarrow> Some (Inr (Adapter B (uart m2) rts cts), m2))))))"

text \<open>\<^verbatim>\<open>ESP32.stop_bluetooth\<close>\<close>

definition stop_bluetooth :: "machine \<Rightarrow> ((error + unit) \<times> machine) option" where
  "stop_bluetooth self =
     (if mode self \<noteq> BLUETOOTH then Some (Inr (), self)
      else
        (case reset_esp32 self of
           None \<Rightarrow> None
         | Some (startup_message, m1) \<Rightarrow> Some (Inr (), m1)))"

text \<open>\<^verbatim>\<open>ESP32.start_wifi\<close> and \<^verbatim>\<open>ESP32.stop_wifi\<close>\<close>

definition start_wifi :: "machine \<Rightarrow> ((error + unit) \<times> machine) option" where
  "start_wifi self = Some (Inl NotImplementedError, self)"

definition stop_wifi :: "machine \<Rightarrow> ((error + unit) \<times> machine) option" where
  "stop_wifi self = Some (Inl NotImplementedError, self)"

subsection \<open>Sequences of calls\<close>

text \<open>
  A caller may issue the four public operations in any order and catch what they raise:
  \<open>run\<close> performs a list of calls and keeps the state that each leaves behind.
\<close>

datatype operation = Start_bluetooth bool | Stop_bluetooth | Start_wifi | Stop_wifi

definition perform ::
  "'a bleio option \<Rightarrow> (byte list \<Rightarrow> str option) \<Rightarrow> operation \<Rightarrow> machine \<Rightarrow> machine option"
where
  "perform import_bleio decode call self =
     (case call of
        Start_bluetooth debug \<Rightarrow> map_option snd (start_bluetooth import_bleio decode debug self)
      | Stop_bluetooth \<Rightarrow> map_option snd (stop_bluetooth self)
      | Start_wifi \<Rightarrow> map_option snd (start_wifi self)
      | Stop_wifi \<Rightarrow> map_option snd (stop_wifi self))"


subsection \<open>What a run of the reset sequence captured\<close>

text \<open>The bytes that the reads recorded in a trace returned, in order.\<close>

fun read_bytes :: "event \<Rightarrow> byte list" where
  "read_bytes (Read (Some b)) = b"
| "read_bytes (Read None) = []"
| "read_bytes (SwitchToOutput p v) = []"
| "read_bytes (SetValue p v) = []"
| "read_bytes (Sleep ms) = []"
| "read_bytes (InWaiting n) = []"
| "read_bytes (Print txt) = []"

definition captured :: "event list \<Rightarrow> byte list" where
  "captured evs = concat (map read_bytes evs)"

text \<open>
  The reset sequence as the specification words it: the same pulse and the same waits,
  then a single pass over the UART, one look and at most one read, with no loop.
\<close>

definition resetDevice_single_pass :: "machine \<Rightarrow> byte list \<times> machine" where
  "resetDevice_single_pass self =
     (let m1 = set_reset_value (reset_high self) self;
          m2 = sleep 100 m1;
          m3 = set_reset_value (\<not> reset_high self) m2;
          m4 = sleep 1000 m3
      in (case in_waiting m4 of (n, m5) \<Rightarrow>
            if n \<noteq> 0 then
              (case uart_read m5 of (data, m6) \<Rightarrow>
                 ((case data of None \<Rightarrow> [] | Some b \<Rightarrow> b), m6))
            else ([], m5)))"

subsection \<open>A concrete board\<close>

text \<open>
  The strict UTF-8 decoder of RFC 3629 (no overlong form, no surrogate, nothing above
  U+10FFFF): the code points, or \<open>None\<close> where Python raises \<^verbatim>\<open>UnicodeDecodeError\<close>.
\<close>

definition continuation :: "byte \<Rightarrow> bool" where
  "continuation c = (0x80 \<le> c \<and> c \<le> 0xBF)"

fun utf8_decode :: "byte list \<Rightarrow> str option" where
  "utf8_decode [] = Some []"
| "utf8_decode (b # bs) =
     (if b < 0x80 then map_option ((#) (unat b)) (utf8_decode bs)
      else if 0xC2 \<le> b \<and> b \<le> 0xDF then
        (case bs of
           c1 # r \<Rightarrow>
             if continuation c1
             then map_option ((#) ((unat b - 0xC0) * 64 + (unat c1 - 0x80))) (utf8_decode r)
             else None
         | _ \<Rightarrow> None)
      else if 0xE0 \<le> b \<and> b \<le> 0xEF then
        (case bs of
           c1 # c2 # r \<Rightarrow>
             if (if b = 0xE0 then 0xA0 \<le> c1 \<and> c1 \<le> 0xBF
                 else if b = 0xED then 0x80 \<le> c1 \<and> c1 \<le> 0x9F
                 else continuation c1) \<and> continuation c2
             then map_option
                    ((#) ((unat b - 0xE0) * 4096 + (unat c1 - 0x80) * 64 + (unat c2 - 0x80)))
                    (utf8_decode r)
             else None
         | _ \<Rightarrow> None)
      else if 0xF0 \<le> b \<and> b \<le> 0xF4 then
        (case bs of
           c1 # c2 # c3 # r \<Rightarrow>
             if (if b = 0xF0 then 0x90 \<le> c1 \<and> c1 \<le> 0xBF
                 else if b = 0xF4 then 0x80 \<le> c1 \<and> c1 \<le> 0x8F
                 else continuation c1) \<and> continuation c2 \<and> continuation c3
             then map_option
                    ((#) ((unat b - 0xF0) * 262144 + (unat c1 - 0x80) * 4096
                          + (unat c2 - 0x80) * 64 + (unat c3 - 0x80)))
                    (utf8_decode r)
             else None
         | _ \<Rightarrow> None)
      else None)"

text \<open>
  A firmware with \<^verbatim>\<open>_bleio\<close>: its adapter handles are the module's own adapter and
  the adapters constructed over a UART and two flow-control lines.
\<close>

datatype handle = Native_adapter | HCI_adapter UART DigitalInOut DigitalInOut

definition board_bleio :: "handle bleio" where
  "board_bleio = \<lparr>adapter = Native_adapter, Adapter = HCI_adapter\<rparr>"

text \<open>
  Four co-processors. Steps 0 and 1 of a fresh controller are the two sleeps of the reset
  sequence, step 2 is the first look at the UART, step 3 the first read, step 4 the second
  look. The first co-processor sends nothing; the second sends \<^verbatim>\<open>b"A"\<close> while the
  controller waits for it to boot; the third sends the byte \<^verbatim>\<open>0xFF\<close>, which is not
  UTF-8; the fourth sends \<^verbatim>\<open>b"A"\<close> and, after the first read, \<^verbatim>\<open>b"B"\<close>.
\<close>

definition silent :: "nat \<Rightarrow> byte list" where
  "silent t = []"

definition greeting :: "nat \<Rightarrow> byte list" where
  "greeting t = (if t = 1 then [0x41] else [])"

definition garbled :: "nat \<Rightarrow> byte list" where
  "garbled t = (if t = 1 then [0xFF] else [])"

definition late :: "nat \<Rightarrow> byte list" where
  "late t = (if t = 1 then [0x41] else if t = 4 then [0x42] else [])"

text \<open>A controller that an earlier call has left in Bluetooth mode, and one in Wifi mode.\<close>

definition in_bluetooth :: machine where
  "in_bluetooth = (ESP32_default False silent)\<lparr>mode := BLUETOOTH\<rparr>"

definition in_wifi :: machine where
  "in_wifi = (ESP32_default False silent)\<lparr>mode := WIFI\<rparr>"

section \<open>Properties\<close>

subsection \<open>The UART operations and the drain loop\<close>

lemma in_waiting_facts:
  assumes "in_waiting m = (n, m1)"
  shows "trace m1 = trace m @ [InWaiting n]" and "mode m1 = mode m"
    and "length (buffer (uart m1)) = n"
  using assms by (auto simp: in_waiting_def tick_def Let_def)

lemma uart_read_facts:
  assumes "uart_read m = (d, m2)"
  shows "trace m2 = trace m @ [Read d]" and "mode m2 = mode m"
    and "buffer (uart m2) = []"
  using assms by (auto simp: uart_read_def tick_def Let_def)

lemma append_chunk:
  "(case d of None \<Rightarrow> msg | Some b \<Rightarrow> if b \<noteq> [] then msg @ b else msg)
     = msg @ read_bytes (Read d)"
  by (cases d) auto

text \<open>
  What holds when the loop is left: the mode is the one it started with, the trace has
  grown by the looks and reads of the loop and ends with the look that found nothing, the
  message has grown by what the reads returned, and the receive buffer is empty.
\<close>

lemma drain_returns:
  assumes "drain m0 msg0 = Some r0"
  shows "mode (snd r0) = mode m0 \<and>
         (\<exists>new. trace (snd r0) = trace m0 @ new @ [InWaiting 0] \<and>
                fst r0 = msg0 @ captured new) \<and>
         buffer (uart (snd r0)) = []"
proof (induction m0 msg0 r0 rule: drain.raw_induct)
  case (1 drain' m msg r)
  obtain n m1 where iw: "in_waiting m = (n, m1)" by (cases "in_waiting m")
  obtain d m2 where rd: "uart_read m1 = (d, m2)" by (cases "uart_read m1")
  note f1 = in_waiting_facts[OF iw] and f2 = uart_read_facts[OF rd]
  show ?case
  proof (cases "n = 0")
    case True
    with 1(2) iw have r: "r = (msg, m1)" by simp
    have "trace m1 = trace m @ [] @ [InWaiting 0] \<and> msg = msg @ captured []"
      using f1(1) True by (simp add: captured_def)
    then show ?thesis using r f1 True by auto
  next
    case False
    with 1(2) iw rd have "drain' m2 (msg @ read_bytes (Read d)) = Some r"
      by (simp add: append_chunk)
    then obtain new where
      ih: "mode (snd r) = mode m2" "trace (snd r) = trace m2 @ new @ [InWaiting 0]"
          "fst r = (msg @ read_bytes (Read d)) @ captured new" "buffer (uart (snd r)) = []"
      using 1(1) by blast
    have "trace (snd r) = trace m @ ([InWaiting n, Read d] @ new) @ [InWaiting 0]"
      using ih(2) f1(1) f2(1) by simp
    moreover have "fst r = msg @ captured ([InWaiting n, Read d] @ new)"
      using ih(3) by (simp add: captured_def)
    ultimately have
      "\<exists>new. trace (snd r) = trace m @ new @ [InWaiting 0] \<and> fst r = msg @ captured new"
      by blast
    moreover have "mode (snd r) = mode m" using ih(1) f1(2) f2(2) by simp
    ultimately show ?thesis using ih(4) by simp
  qed
qed (rule assms)

lemma in_waiting_env:
  assumes "in_waiting m = (n, m1)"
  shows "arrivals m1 = arrivals m" and "clock m1 = Suc (clock m)"
    and "buffer (uart m1) =
           take (receiver_buffer_size (uart m)) (buffer (uart m) @ arrivals m (clock m))"
  using assms by (auto simp: in_waiting_def tick_def Let_def)

lemma uart_read_env:
  assumes "uart_read m = (d, m2)"
  shows "arrivals m2 = arrivals m" and "clock m2 = Suc (clock m)"
  using assms by (auto simp: uart_read_def tick_def Let_def)

text \<open>
  The loop is left if the co-processor stops sending: when nothing arrives from step
  \<open>T\<close> on, each round either finds the buffer empty or empties it two steps later.
\<close>

lemma drain_terminates:
  assumes "\<forall>t\<ge>T. arrivals m t = []"
  shows "\<exists>r. drain m msg = Some r"
  using assms
proof (induction "2 * (T - clock m) + (if buffer (uart m) = [] then 0 else 1)"
         arbitrary: m msg rule: less_induct)
  case less
  obtain n m1 where iw: "in_waiting m = (n, m1)" by (cases "in_waiting m")
  obtain d m2 where rd: "uart_read m1 = (d, m2)" by (cases "uart_read m1")
  note e1 = in_waiting_env[OF iw] and e2 = uart_read_env[OF rd]
  show ?case
  proof (cases "n = 0")
    case True
    then show ?thesis using iw by (subst drain.simps) simp
  next
    case False
    have n: "n = length (buffer (uart m1))" using in_waiting_facts(3)[OF iw] by simp
    have smaller: "2 * (T - clock m2) + (if buffer (uart m2) = [] then 0 else 1)
             < 2 * (T - clock m) + (if buffer (uart m) = [] then 0 else (1::nat))"
    proof (cases "T \<le> clock m")
      case True
      then have "arrivals m (clock m) = []" using less.prems by simp
      then have "buffer (uart m) \<noteq> []" using False n e1(3) by auto
      then show ?thesis using True e1(2) e2(2) uart_read_facts(3)[OF rd] by simp
    next
      case False
      then show ?thesis using e1(2) e2(2) uart_read_facts(3)[OF rd] by simp
    qed
    have "\<forall>t\<ge>T. arrivals m2 t = []" using less.prems e1(1) e2(1) by simp
    from less.hyps[OF smaller this] obtain r where
      "drain m2 (msg @ read_bytes (Read d)) = Some r" by blast
    then show ?thesis using iw rd False by (subst drain.simps) (simp add: append_chunk)
  qed
qed

lemma reset_esp32_terminates:
  assumes "\<forall>t\<ge>T. arrivals self t = []"
  shows "\<exists>r. reset_esp32 self = Some r"
proof -
  have "\<forall>t\<ge>T. arrivals (sleep 1000 (set_reset_value (\<not> reset_high self)
            (sleep 100 (set_reset_value (reset_high self) self)))) t = []"
    using assms by (simp add: sleep_def set_reset_value_def tick_def Let_def)
  from drain_terminates[OF this] show ?thesis by (simp add: reset_esp32_def Let_def)
qed

lemma reset_esp32_returns:
  assumes "reset_esp32 self = Some (banner, m)"
  shows "mode m = mode self"
    and "\<exists>new. trace m = trace self @
            [SetValue (pin (reset self)) (reset_high self), Sleep 100,
             SetValue (pin (reset self)) (\<not> reset_high self), Sleep 1000]
            @ new @ [InWaiting 0] \<and> banner = captured new"
    and "buffer (uart m) = []"
proof -
  let ?m4 = "sleep 1000 (set_reset_value (\<not> reset_high self)
            (sleep 100 (set_reset_value (reset_high self) self)))"
  have d: "drain ?m4 [] = Some (banner, m)" using assms by (simp add: reset_esp32_def Let_def)
  have m4: "mode ?m4 = mode self"
    "trace ?m4 = trace self @
            [SetValue (pin (reset self)) (reset_high self), Sleep 100,
             SetValue (pin (reset self)) (\<not> reset_high self), Sleep 1000]"
    by (simp_all add: sleep_def set_reset_value_def tick_def Let_def)
  from drain_returns[OF d] m4 show "mode m = mode self" by simp
  from drain_returns[OF d] m4 show "\<exists>new. trace m = trace self @
            [SetValue (pin (reset self)) (reset_high self), Sleep 100,
             SetValue (pin (reset self)) (\<not> reset_high self), Sleep 1000]
            @ new @ [InWaiting 0] \<and> banner = captured new" by simp
  from drain_returns[OF d] show "buffer (uart m) = []" by simp
qed

subsection \<open>Unfolding the model on a concrete board\<close>

lemmas hardware_defs =
  tick_def sleep_def in_waiting_def uart_read_def set_reset_value_def
  gpio0_switch_to_output_def chip_select_switch_to_output_def print_def
  switch_to_output_def DigitalInOut_new_def getattr_pin_def Let_def

lemmas board_defs =
  ESP32_default_def ESP32_init_def board_bleio_def silent_def greeting_def garbled_def
  late_def in_bluetooth_def in_wifi_def

lemmas method_defs =
  reset_esp32_def strap_bluetooth_def start_bluetooth_def stop_bluetooth_def
  start_wifi_def stop_wifi_def perform_def resetDevice_single_pass_def

subsection \<open>\<^verbatim>\<open>start_bluetooth\<close> from \<^verbatim>\<open>NOT_IN_USE\<close>\<close>

lemma strap_bluetooth_mode: "mode (strap_bluetooth self) = BLUETOOTH"
  by (simp add: strap_bluetooth_def hardware_defs)

text \<open>
  Every way in which the call ends once the reset sequence has returned. No branch
  returns an adapter: the last statement reads \<^verbatim>\<open>self._cts\<close>, which does not exist.
\<close>

lemma start_bluetooth_not_in_use:
  assumes "mode self = NOT_IN_USE"
    and "reset_esp32 (strap_bluetooth self) = Some (banner, m)"
  shows "start_bluetooth (Some B) decode debug self =
     (if banner = [] then Some (Inl NoStartupResponse, m)
      else if debug then
        (case decode banner of
           None \<Rightarrow> Some (Inl GarbledStartup, m)
         | Some txt \<Rightarrow> Some (Inl (AttributeError ''_cts''), print txt m))
      else Some (Inl (AttributeError ''_cts''), m))"
  using assms by (simp add: start_bluetooth_def getattr_pin_def split: option.splits)

lemma start_bluetooth_builds_no_adapter:
  assumes "mode self = NOT_IN_USE"
  shows "start_bluetooth (Some B) decode debug self \<noteq> Some (Inr h, m)"
proof (cases "reset_esp32 (strap_bluetooth self)")
  case None
  then show ?thesis using assms by (simp add: start_bluetooth_def)
next
  case (Some r)
  obtain banner m1 where "r = (banner, m1)" by (cases r)
  with Some have "reset_esp32 (strap_bluetooth self) = Some (banner, m1)" by simp
  from start_bluetooth_not_in_use[OF assms this, of B decode debug] show ?thesis
    by (simp split: option.splits)
qed

text \<open>
  The call comes back whenever the co-processor falls silent from some step on.
\<close>

lemma start_bluetooth_terminates:
  assumes "\<forall>t\<ge>T. arrivals self t = []"
  shows "\<exists>r. start_bluetooth import_bleio decode debug self = Some r"
proof -
  have "\<forall>t\<ge>T. arrivals (strap_bluetooth self) t = []"
    using assms by (simp add: strap_bluetooth_def hardware_defs)
  from reset_esp32_terminates[OF this] obtain banner m where
    "reset_esp32 (strap_bluetooth self) = Some (banner, m)" by fastforce
  then show ?thesis
    by (simp add: start_bluetooth_def getattr_pin_def split: option.splits sum.splits)
qed

text \<open>On a board without \<^verbatim>\<open>_bleio\<close> the import raises before anything else happens.\<close>

lemma start_bluetooth_without_bleio:
  "start_bluetooth None decode debug self = Some (Inl ImportError, self)"
  by (simp add: start_bluetooth_def)

text \<open>
  Claim C1: from \<^verbatim>\<open>NOT_IN_USE\<close>, when the reset sequence yields a non-empty banner,
  \<^verbatim>\<open>start_bluetooth\<close> returns an adapter built over the UART with RTS on the gpio0
  line and CTS on the busy line. The code does not: on a board with \<^verbatim>\<open>_bleio\<close>
  whose co-processor answers the reset with \<^verbatim>\<open>b"A"\<close>, the call with
  \<^verbatim>\<open>debug=False\<close> raises \<^verbatim>\<open>AttributeError\<close> for \<^verbatim>\<open>_cts\<close>; the busy line is
  the attribute \<^verbatim>\<open>_busy_and_cts\<close>.
\<close>

theorem start_bluetooth_greeting_raises_AttributeError:
  "map_option fst
     (start_bluetooth (Some board_bleio) utf8_decode False (ESP32_default False greeting))
   = Some (Inl (AttributeError ''_cts'')) \<and>
   map_option (mode \<circ> snd)
     (start_bluetooth (Some board_bleio) utf8_decode False (ESP32_default False greeting))
   = Some BLUETOOTH"
  by (simp add: method_defs board_defs hardware_defs drain.simps)

text \<open>
  Claim C2: in every state with mode \<^verbatim>\<open>BLUETOOTH\<close> (a mode that only a board
  with \<^verbatim>\<open>_bleio\<close> reaches), \<^verbatim>\<open>start_bluetooth\<close> returns the existing adapter
  \<^verbatim>\<open>_bleio.adapter\<close>, the same at every call, and the state it leaves is the state
  it found, trace and clock included: no line is written, no reset is run, the UART is
  not touched.
\<close>

theorem start_bluetooth_idempotent:
  "mode self = BLUETOOTH \<Longrightarrow>
   start_bluetooth (Some B) decode debug self = Some (Inr (adapter B), self)"
  by (simp add: start_bluetooth_def)

theorem start_bluetooth_idempotent_witness:
  "mode in_bluetooth = BLUETOOTH \<and>
   start_bluetooth (Some board_bleio) utf8_decode True in_bluetooth
     = Some (Inr Native_adapter, in_bluetooth)"
  using start_bluetooth_idempotent[of in_bluetooth board_bleio utf8_decode True]
  by (simp add: in_bluetooth_def board_bleio_def)

text \<open>
  Claim C3 says that \<^verbatim>\<open>start_bluetooth\<close> raises the mode conflict whenever the mode
  is \<^verbatim>\<open>WIFI\<close>. The method imports \<^verbatim>\<open>_bleio\<close> before it looks at the mode, so on a
  board without the module the call in mode \<^verbatim>\<open>WIFI\<close> raises \<^verbatim>\<open>ImportError\<close>, not
  the mode conflict.
\<close>

theorem start_bluetooth_in_wifi_mode_counterexample:
  "mode in_wifi = WIFI \<and>
   start_bluetooth (None :: handle bleio option) utf8_decode False in_wifi
     \<noteq> Some (Inl ModeConflict, in_wifi)"
  by (simp add: start_bluetooth_def in_wifi_def)

text \<open>
  Claim C3, amended: in every state with mode \<^verbatim>\<open>WIFI\<close>, \<^verbatim>\<open>start_bluetooth\<close> raises
  the mode conflict once its import of \<^verbatim>\<open>_bleio\<close> has succeeded, and
  \<^verbatim>\<open>ImportError\<close> on a board without the module; either way the state it leaves is
  the state it found: the mode is not set, no line is written and no reset is run before
  the error.
\<close>

theorem start_bluetooth_in_wifi_mode:
  "mode self = WIFI \<Longrightarrow>
   start_bluetooth (Some B) decode debug self = Some (Inl ModeConflict, self) \<and>
   start_bluetooth (None :: 'a bleio option) decode debug self = Some (Inl ImportError, self)"
  by (simp add: start_bluetooth_def)

theorem start_bluetooth_in_wifi_mode_witness:
  "mode in_wifi = WIFI \<and>
   start_bluetooth (Some board_bleio) utf8_decode False in_wifi
     = Some (Inl ModeConflict, in_wifi) \<and>
   start_bluetooth (None :: handle bleio option) utf8_decode False in_wifi
     = Some (Inl ImportError, in_wifi)"
  using start_bluetooth_in_wifi_mode[of in_wifi board_bleio utf8_decode False]
  by (simp add: in_wifi_def)

text \<open>
  Claim C4: when the reset sequence inside \<^verbatim>\<open>start_bluetooth\<close> has returned its
  banner, the call raises "did not respond with a startup message" exactly when the
  banner is empty.
\<close>

theorem no_startup_response_iff_empty_banner:
  assumes "mode self = NOT_IN_USE"
    and "reset_esp32 (strap_bluetooth self) = Some (banner, m)"
  shows "\<exists>r m'. start_bluetooth (Some B) decode debug self = Some (r, m') \<and>
           (r = Inl NoStartupResponse) = (banner = [])"
  using start_bluetooth_not_in_use[OF assms, of B decode debug]
  by (auto split: option.splits)

theorem no_startup_response_iff_empty_banner_witness:
  "mode (ESP32_default False silent) = NOT_IN_USE \<and>
   map_option fst (reset_esp32 (strap_bluetooth (ESP32_default False silent))) = Some [] \<and>
   map_option fst
     (start_bluetooth (Some board_bleio) utf8_decode False (ESP32_default False silent))
     = Some (Inl NoStartupResponse) \<and>
   map_option fst (reset_esp32 (strap_bluetooth (ESP32_default False greeting)))
     = Some [0x41] \<and>
   map_option fst
     (start_bluetooth (Some board_bleio) utf8_decode False (ESP32_default False greeting))
     \<noteq> Some (Inl NoStartupResponse)"
proof -
  have h1: "mode (ESP32_default False silent) = NOT_IN_USE"
    and g1: "mode (ESP32_default False greeting) = NOT_IN_USE"
    by (simp_all add: board_defs)
  have "\<exists>m. reset_esp32 (strap_bluetooth (ESP32_default False silent)) = Some ([], m)"
    by (simp add: method_defs board_defs hardware_defs drain.simps)
  then obtain m where
    h2: "reset_esp32 (strap_bluetooth (ESP32_default False silent)) = Some ([], m)" ..
  have "\<exists>m. reset_esp32 (strap_bluetooth (ESP32_default False greeting)) = Some ([0x41], m)"
    by (simp add: method_defs board_defs hardware_defs drain.simps)
  then obtain m' where
    g2: "reset_esp32 (strap_bluetooth (ESP32_default False greeting)) = Some ([0x41], m')" ..
  from no_startup_response_iff_empty_banner[OF h1 h2, of board_bleio utf8_decode False]
       no_startup_response_iff_empty_banner[OF g1 g2, of board_bleio utf8_decode False]
       h1 h2 g2
  show ?thesis by auto
qed

text \<open>
  The garbled-startup error is raised exactly when \<^verbatim>\<open>debug\<close> is set and the
  non-empty banner does not decode.
\<close>

lemma garbled_startup_iff:
  assumes "mode self = NOT_IN_USE"
    and "reset_esp32 (strap_bluetooth self) = Some (banner, m)"
  shows "\<exists>r m'. start_bluetooth (Some B) decode debug self = Some (r, m') \<and>
           (r = Inl GarbledStartup) = (debug \<and> banner \<noteq> [] \<and> decode banner = None)"
  using start_bluetooth_not_in_use[OF assms, of B decode debug]
  by (auto split: option.splits)

text \<open>
  Claim C5: \<^verbatim>\<open>start_bluetooth\<close> raises the garbled-startup error if and only if
  \<^verbatim>\<open>debug\<close> is set and the non-empty banner is not UTF-8; without \<^verbatim>\<open>debug\<close>
  the banner is not decoded and the call succeeds on the same bytes. The first half holds
  (\<open>garbled_startup_iff\<close>); the call without \<^verbatim>\<open>debug\<close> does skip the decoding but
  does not succeed: for the banner \<^verbatim>\<open>b"\xff"\<close> it raises \<^verbatim>\<open>AttributeError\<close> for
  \<^verbatim>\<open>_cts\<close>.
\<close>

theorem start_bluetooth_garbled_banner:
  "utf8_decode [0xFF] = None \<and>
   map_option fst
     (start_bluetooth (Some board_bleio) utf8_decode True (ESP32_default False garbled))
   = Some (Inl GarbledStartup) \<and>
   map_option fst
     (start_bluetooth (Some board_bleio) utf8_decode False (ESP32_default False garbled))
   = Some (Inl (AttributeError ''_cts''))"
  by (simp add: method_defs board_defs hardware_defs drain.simps)

text \<open>
  Claim C6: when \<^verbatim>\<open>start_bluetooth\<close> is called in mode \<^verbatim>\<open>NOT_IN_USE\<close> and fails
  for want of a startup message or for a garbled one, the mode it leaves is
  \<^verbatim>\<open>BLUETOOTH\<close>: the assignment made before the reset is not undone.
\<close>

theorem failed_start_keeps_bluetooth_mode:
  assumes "mode self = NOT_IN_USE"
    and "start_bluetooth (Some B) decode debug self = Some (Inl e, m)"
    and "e = NoStartupResponse \<or> e = GarbledStartup"
  shows "mode m = BLUETOOTH"
proof (cases "reset_esp32 (strap_bluetooth self)")
  case None
  then show ?thesis using assms(1,2) by (simp add: start_bluetooth_def)
next
  case (Some r)
  obtain banner m1 where r: "reset_esp32 (strap_bluetooth self) = Some (banner, m1)"
    using Some by (cases r) simp
  have "mode m1 = BLUETOOTH"
    using reset_esp32_returns(1)[OF r] by (simp add: strap_bluetooth_mode)
  moreover have "m = m1"
    using start_bluetooth_not_in_use[OF assms(1) r, of B decode debug] assms(2,3)
    by (auto split: if_splits option.splits)
  ultimately show ?thesis by simp
qed

theorem failed_start_keeps_bluetooth_mode_witness:
  "mode (ESP32_default False silent) = NOT_IN_USE \<and>
   map_option fst
     (start_bluetooth (Some board_bleio) utf8_decode False (ESP32_default False silent))
     = Some (Inl NoStartupResponse) \<and>
   map_option (mode \<circ> snd)
     (start_bluetooth (Some board_bleio) utf8_decode False (ESP32_default False silent))
     = Some BLUETOOTH \<and>
   mode (ESP32_default False garbled) = NOT_IN_USE \<and>
   map_option fst
     (start_bluetooth (Some board_bleio) utf8_decode True (ESP32_default False garbled))
     = Some (Inl GarbledStartup) \<and>
   map_option (mode \<circ> snd)
     (start_bluetooth (Some board_bleio) utf8_decode True (ESP32_default False garbled))
     = Some BLUETOOTH"
proof -
  have h1: "mode (ESP32_default False silent) = NOT_IN_USE"
    and g1: "mode (ESP32_default False garbled) = NOT_IN_USE"
    by (simp_all add: board_defs)
  have "\<exists>m. start_bluetooth (Some board_bleio) utf8_decode False (ESP32_default False silent)
          = Some (Inl NoStartupResponse, m)"
    by (simp add: method_defs board_defs hardware_defs drain.simps)
  then obtain m where h2:
    "start_bluetooth (Some board_bleio) utf8_decode False (ESP32_default False silent)
       = Some (Inl NoStartupResponse, m)" ..
  have "\<exists>m. start_bluetooth (Some board_bleio) utf8_decode True (ESP32_default False garbled)
          = Some (Inl GarbledStartup, m)"
    by (simp add: method_defs board_defs hardware_defs drain.simps)
  then obtain m' where g2:
    "start_bluetooth (Some board_bleio) utf8_decode True (ESP32_default False garbled)
       = Some (Inl GarbledStartup, m')" ..
  from failed_start_keeps_bluetooth_mode[OF h1 h2]
       failed_start_keeps_bluetooth_mode[OF g1 g2] h1 h2 g1 g2
  show ?thesis by simp
qed

subsection \<open>What the constructor leaves\<close>

text \<open>
  Claim C7 says that the constructor drives the reset line at the inactive level, the
  negation of \<^verbatim>\<open>reset_high\<close>. With \<^verbatim>\<open>reset_high=False\<close> the inactive level is
  high, and the constructor drives the line low.
\<close>

theorem init_reset_level_counterexample:
  "val (reset (ESP32_default False silent)) \<noteq> (\<not> False)"
  by (simp add: board_defs hardware_defs)

text \<open>
  Claim C7, amended: for both values of \<^verbatim>\<open>reset_high\<close> the constructor makes the
  reset line an output driven at \<^verbatim>\<open>reset_high\<close> itself, the level at which
  \<^verbatim>\<open>_reset_esp32\<close> asserts the reset, by the one line operation
  \<^verbatim>\<open>switch_to_output(reset_high)\<close>; the mode starts at \<^verbatim>\<open>NOT_IN_USE\<close>.
\<close>

theorem init_reset_pin_and_mode:
  "direction (reset (ESP32_init esp_reset esp_gpio0 esp_busy esp_cs esp_tx esp_rx spi_arg rh feed))
     = OUTPUT \<and>
   val (reset (ESP32_init esp_reset esp_gpio0 esp_busy esp_cs esp_tx esp_rx spi_arg rh feed))
     = rh \<and>
   reset_high (ESP32_init esp_reset esp_gpio0 esp_busy esp_cs esp_tx esp_rx spi_arg rh feed)
     = rh \<and>
   trace (ESP32_init esp_reset esp_gpio0 esp_busy esp_cs esp_tx esp_rx spi_arg rh feed)
     = [SwitchToOutput esp_reset rh] \<and>
   mode (ESP32_init esp_reset esp_gpio0 esp_busy esp_cs esp_tx esp_rx spi_arg rh feed)
     = NOT_IN_USE"
  by (simp add: ESP32_init_def hardware_defs)

subsection \<open>What the reset sequence captures\<close>




subsection \<open>\<^verbatim>\<open>stop_bluetooth\<close> and the Bluetooth mode\<close>

text \<open>
  Claim C9: in every state whose mode is not \<^verbatim>\<open>BLUETOOTH\<close>, \<^verbatim>\<open>stop_bluetooth\<close>
  returns at once and leaves the state as it found it, trace and clock included; in mode
  \<^verbatim>\<open>BLUETOOTH\<close>, and only there, it is a run of the reset sequence, which shows in
  the trace as the reset pulse, the two waits and the looks at the UART.
\<close>

theorem stop_bluetooth_noop_unless_bluetooth:
  "(mode self \<noteq> BLUETOOTH \<longrightarrow> stop_bluetooth self = Some (Inr (), self)) \<and>
   (mode self = BLUETOOTH \<longrightarrow>
      stop_bluetooth self = map_option (\<lambda>(banner, m). (Inr (), m)) (reset_esp32 self)) \<and>
   (\<forall>r m. mode self = BLUETOOTH \<and> stop_bluetooth self = Some (r, m) \<longrightarrow>
      (\<exists>new. trace m = trace self @
         [SetValue (pin (reset self)) (reset_high self), Sleep 100,
          SetValue (pin (reset self)) (\<not> reset_high self), Sleep 1000]
         @ new @ [InWaiting 0]))"
proof -
  have "\<exists>new. trace m = trace self @
         [SetValue (pin (reset self)) (reset_high self), Sleep 100,
          SetValue (pin (reset self)) (\<not> reset_high self), Sleep 1000]
         @ new @ [InWaiting 0]"
    if "mode self = BLUETOOTH" and "stop_bluetooth self = Some (r, m)" for r m
  proof -
    from that obtain banner where "reset_esp32 self = Some (banner, m)"
      by (auto simp: stop_bluetooth_def split: option.splits)
    from reset_esp32_returns(2)[OF this] show ?thesis by blast
  qed
  then show ?thesis
    by (auto simp: stop_bluetooth_def split: option.splits)
qed

theorem stop_bluetooth_noop_unless_bluetooth_witness:
  "mode (ESP32_default False greeting) \<noteq> BLUETOOTH \<and>
   stop_bluetooth (ESP32_default False greeting) = Some (Inr (), ESP32_default False greeting) \<and>
   mode in_bluetooth = BLUETOOTH \<and>
   map_option (trace \<circ> snd) (stop_bluetooth in_bluetooth) =
     Some [SwitchToOutput ESP_RESET False, SetValue ESP_RESET False, Sleep 100,
           SetValue ESP_RESET True, Sleep 1000, InWaiting 0]"
proof -
  have a: "mode (ESP32_default False greeting) \<noteq> BLUETOOTH"
    and b: "mode in_bluetooth = BLUETOOTH"
    by (simp_all add: board_defs)
  have "map_option (trace \<circ> snd)
          (map_option (\<lambda>(banner, m). (Inr (), m)) (reset_esp32 in_bluetooth)) =
     Some [SwitchToOutput ESP_RESET False, SetValue ESP_RESET False, Sleep 100,
           SetValue ESP_RESET True, Sleep 1000, InWaiting 0]"
    by (simp add: method_defs board_defs hardware_defs drain.simps)
  moreover have "stop_bluetooth in_bluetooth =
      map_option (\<lambda>(banner, m). (Inr (), m)) (reset_esp32 in_bluetooth)"
    using stop_bluetooth_noop_unless_bluetooth[of in_bluetooth] b by simp
  moreover have "stop_bluetooth (ESP32_default False greeting)
      = Some (Inr (), ESP32_default False greeting)"
    using stop_bluetooth_noop_unless_bluetooth[of "ESP32_default False greeting"] a by simp
  ultimately show ?thesis using a b by (simp only: simp_thms)
qed

lemma stop_bluetooth_terminates:
  assumes "\<forall>t\<ge>T. arrivals self t = []"
  shows "\<exists>r. stop_bluetooth self = Some r"
  using reset_esp32_terminates[OF assms]
  by (auto simp: stop_bluetooth_def split: option.splits)





end
